theory Spec2Isabelle
  imports Main "HOL-Library.Word" "HOL-Library.Char_ord" "HOL-Library.List_Lexorder"
begin

unbundle bit_operations_syntax

section \<open>Go library functions used by the sources\<close>

text \<open>
  Go strings are byte sequences, modelled as \<^typ>\<open>string\<close>. Only the library calls the
  sources make are modelled, with the arguments the sources pass: \<open>strings.Split\<close> with a
  one-byte separator, \<open>filepath.Base\<close>, \<open>filepath.Dir\<close>, \<open>filepath.Clean\<close> and
  \<open>filepath.Join\<close> on Unix paths, and \<open>fmt.Sprintf\<close> with the verbs \<open>%d\<close>, \<open>%010d\<close>
  and \<open>%10d\<close> on unsigned values.
\<close>

type_synonym uint32 = "32 word"

text \<open>\<open>strings.Split(s, sep)\<close> for a separator of one byte; the empty string gives \<open>[""]\<close>.\<close>

fun Split :: "char \<Rightarrow> string \<Rightarrow> string list" where
  "Split c [] = [[]]"
| "Split c (x # xs) =
     (if x = c then [] # Split c xs
      else (case Split c xs of [] \<Rightarrow> [[x]] | y # ys \<Rightarrow> (x # y) # ys))"

text \<open>\<open>strings.Join(elems, "/")\<close>.\<close>

fun JoinSlash :: "string list \<Rightarrow> string" where
  "JoinSlash [] = []"
| "JoinSlash [x] = x"
| "JoinSlash (x # y # ys) = x @ CHR ''/'' # JoinSlash (y # ys)"

text \<open>
  \<open>filepath.Clean\<close>: the path is processed element by element. Empty elements and \<open>.\<close>
  are dropped; \<open>..\<close> removes the preceding real element, is dropped at the root of a
  rooted path, and is kept at the start of a relative one. The stack holds the elements
  written so far, the last one first.
\<close>

fun cleanElems :: "bool \<Rightarrow> string list \<Rightarrow> string list \<Rightarrow> string list" where
  "cleanElems rooted stack [] = stack"
| "cleanElems rooted stack (e # es) =
     (if e = [] \<or> e = ''.'' then cleanElems rooted stack es
      else if e = ''..'' then
        (case stack of
           [] \<Rightarrow> cleanElems rooted (if rooted then [] else [''..'']) es
         | t # ts \<Rightarrow>
             if t = ''..'' then cleanElems rooted (''..'' # t # ts) es
             else cleanElems rooted ts es)
      else cleanElems rooted (e # stack) es)"

definition Clean :: "string \<Rightarrow> string" where
  "Clean path =
     (if path = [] then ''.''
      else
        let rooted = (hd path = CHR ''/'');
            out = (if rooted then ''/'' else []) @
                  JoinSlash (rev (cleanElems rooted [] (Split (CHR ''/'') path)))
        in if out = [] then ''.'' else out)"

text \<open>
  \<open>filepath.Join(elem...)\<close>: leading empty elements are skipped, the rest is joined
  with \<open>/\<close> and cleaned; with nothing left the result is empty.
\<close>

definition Join :: "string list \<Rightarrow> string" where
  "Join elem =
     (case dropWhile (\<lambda>e. e = []) elem of
        [] \<Rightarrow> []
      | es \<Rightarrow> Clean (JoinSlash es))"

text \<open>\<open>filepath.Base\<close>: the last element of the path, trailing slashes removed first.\<close>

definition Base :: "string \<Rightarrow> string" where
  "Base path =
     (if path = [] then ''.''
      else
        let p = rev (dropWhile (\<lambda>c. c = CHR ''/'') (rev path));
            e = rev (takeWhile (\<lambda>c. c \<noteq> CHR ''/'') (rev p))
        in if e = [] then ''/'' else e)"

text \<open>\<open>filepath.Dir\<close>: everything up to the last slash, cleaned.\<close>

definition Dir :: "string \<Rightarrow> string" where
  "Dir path = Clean (rev (dropWhile (\<lambda>c. c \<noteq> CHR ''/'') (rev path)))"

text \<open>\<open>strings.Trim\<close> with the cutset of space, CR, LF and TAB.\<close>

definition isBlank :: "char \<Rightarrow> bool" where
  "isBlank c = (c = CHR '' '' \<or> c = CHR 0x0D \<or> c = CHR 0x0A \<or> c = CHR 0x09)"

definition Trim :: "string \<Rightarrow> string" where
  "Trim s = rev (dropWhile isBlank (rev (dropWhile isBlank s)))"

text \<open>Decimal output of \<open>%d\<close>, and the padded forms \<open>%010d\<close> (zeros) and \<open>%10d\<close> (spaces).\<close>

definition digitChar :: "nat \<Rightarrow> char" where
  "digitChar d = ''0123456789'' ! d"

fun dec :: "nat \<Rightarrow> string" where
  "dec n = (if n < 10 then [digitChar n] else dec (n div 10) @ [digitChar (n mod 10)])"

declare dec.simps [simp del]

definition padLeft :: "char \<Rightarrow> nat \<Rightarrow> string \<Rightarrow> string" where
  "padLeft c w s = replicate (w - length s) c @ s"

text \<open>Reading decimal digits: the value of a digit string, most significant digit first.\<close>

definition isDigit :: "char \<Rightarrow> bool" where
  "isDigit c = (48 \<le> (of_char c :: nat) \<and> (of_char c :: nat) \<le> 57)"

definition digitVal :: "char \<Rightarrow> nat" where
  "digitVal c = of_char c - 48"

definition decValue :: "string \<Rightarrow> nat" where
  "decValue s = foldl (\<lambda>acc c. 10 * acc + digitVal c) 0 s"

text \<open>
  \<open>strconv.ParseUint(s, 10, 32)\<close> with the error dropped, as \<open>GetFreeIPRange\<close> of
  host-etcd calls it: 0 on a syntax error, the largest value on a range error.
\<close>

definition ParseUint32 :: "string \<Rightarrow> uint32" where
  "ParseUint32 s =
     (if s = [] \<or> \<not> list_all isDigit s then 0
      else if decValue s < 2 ^ 32 then of_nat (decValue s)
      else - 1)"

section \<open>Addresses, subnets and ranges\<close>

text \<open>
  An IPv4 address (\<open>net.IP\<close>) is represented by its 32-bit big-endian value, so that
  \<open>ipaddr.IP4ToUint32\<close> and \<open>ipaddr.Uint32ToIP4\<close> are the identity. A subnet
  (\<open>types.IPNet\<close>) is an address and a mask.
\<close>

record IPNet =
  IP :: uint32
  Mask :: uint32

record SimpleRange =
  RangeStart :: uint32
  RangeEnd :: uint32

record Range = SimpleRange +
  Subnet :: IPNet
  Gateway :: "uint32 option"

text \<open>
  Modelled from the spec: the package \<open>ipaddr\<close> is not among the sources.
  \<open>Net4To2Uint32\<close> is the spec's \<open>subnetBounds\<close>: first = network + 1 and
  last = broadcast - 1.
\<close>

definition Net4To2Uint32 :: "IPNet \<Rightarrow> uint32 \<times> uint32" where
  "Net4To2Uint32 subnet =
     (let network = IP subnet AND Mask subnet;
          broadcast = network OR NOT (Mask subnet)
      in (network + 1, broadcast - 1))"

text \<open>
  Modelled from the spec: \<open>ipaddr.StrToUint32\<close> reads the decimal fields of a lease key
  (\<open><IPStart u32, decimal, zero-padded>-<hostSize>\<close>). A field that is not a decimal
  32-bit value reads as 0, which \<open>ipamGetFreeIPRange\<close> reports as an invalid key.
\<close>

definition StrToUint32 :: "string \<Rightarrow> uint32" where
  "StrToUint32 s =
     (if s \<noteq> [] \<and> list_all isDigit s \<and> decValue s < 2 ^ 32 then of_nat (decValue s) else 0)"

text \<open>
  Modelled from the spec: \<open>ipaddr.Uint32AddSeg\<close> adds a block of \<open>2^hostSize\<close> addresses
  (the spec's \<open>end = start + 2^hostSize - 1\<close>), in 32-bit arithmetic.
\<close>

definition Uint32AddSeg :: "uint32 \<Rightarrow> uint32 \<Rightarrow> uint32" where
  "Uint32AddSeg ip hostSize = ip + 2 ^ unat hostSize"

text \<open>
  Modelled from the spec: \<open>SimpleRange.HostSize\<close> of the package \<open>allocator\<close> is the
  smallest \<open>n\<close> with \<open>end - start + 1 \<le> 2^n\<close>. A range has at most \<open>2^32\<close>
  addresses, so the search stops at 32.
\<close>

definition rangeSize :: "SimpleRange \<Rightarrow> nat" where
  "rangeSize r = unat (RangeEnd r - RangeStart r) + 1"

definition HostSize :: "SimpleRange \<Rightarrow> nat" where
  "HostSize r = (case find (\<lambda>n. rangeSize r \<le> 2 ^ n) [0..<33] of Some n \<Rightarrow> n | None \<Rightarrow> 32)"

section \<open>Errors\<close>

text \<open>
  One constructor for each place where the sources build an error, and one for a run-time
  panic (an index out of range, a nil dereference), which is not an error value: it
  unwinds through every caller.
\<close>

datatype error =
    ErrCreateClient     \<comment> \<open>\<open>etcdv3.New\<close> failed\<close>
  | ErrCreateSession    \<comment> \<open>"create etcd session failed"\<close>
  | ErrLock             \<comment> \<open>"get etcd locd failed"\<close>
  | ErrCheckKey         \<comment> \<open>"failed to check key"\<close>
  | ErrKeyExists        \<comment> \<open>"key %v exists"\<close>
  | ErrPut              \<comment> \<open>"write key %v to %v failed"\<close>
  | ErrDelete           \<comment> \<open>"delete key %v failed"\<close>
  | ErrGet              \<comment> \<open>"Get %v failed"\<close>
  | ErrApplyFailed      \<comment> \<open>"apply ip range failed"\<close>
  | ErrWriteLease       \<comment> \<open>"write key %v with value %v failed"\<close>
  | ErrCantApply        \<comment> \<open>"can't apply free IP range"\<close>
  | ErrNoAddresses      \<comment> \<open>"no IP addresses available in range set"\<close>
  | ErrOther string     \<comment> \<open>any other error of a collaborator, with its message\<close>
  | ErrAllocate nat error  \<comment> \<open>"failed to allocate for range %d: %v"\<close>
  | Panic               \<comment> \<open>run-time panic\<close>

section \<open>Lease keys (multus-ipam/backend/etcdv3cli/cli.go)\<close>

definition maxApplyTry :: nat where
  "maxApplyTry = 3"

text \<open>\<open>keyTemplate = "%010d-%d"\<close>.\<close>

definition keyTemplate :: "uint32 \<Rightarrow> nat \<Rightarrow> string" where
  "keyTemplate ips n = padLeft (CHR ''0'') 10 (dec (unat ips)) @ CHR ''-'' # dec n"

text \<open>
  \<open>ipmaLeaseToUint32Range\<close>: \<open>lease[1]\<close> panics when the base name of the key holds no
  \<open>-\<close>; that is the result \<open>None\<close>.
\<close>

definition ipmaLeaseToUint32Range :: "string \<Rightarrow> (uint32 \<times> uint32) option" where
  "ipmaLeaseToUint32Range key =
     (case Split (CHR ''-'') (Base key) of
        l0 # l1 # _ \<Rightarrow>
          let IPStart = StrToUint32 l0;
              hostSize = StrToUint32 l1;
              IPEnd = Uint32AddSeg IPStart hostSize - 1
          in Some (IPStart, IPEnd)
      | _ \<Rightarrow> None)"

definition ipamLeaseToSimleRange :: "string \<Rightarrow> SimpleRange option" where
  "ipamLeaseToSimleRange l =
     (case ipmaLeaseToUint32Range l of
        None \<Rightarrow> None
      | Some (ips, ipe) \<Rightarrow> Some \<lparr>RangeStart = ips, RangeEnd = ipe\<rparr>)"

definition ipamSimpleRangeToLease :: "string \<Rightarrow> SimpleRange \<Rightarrow> string" where
  "ipamSimpleRangeToLease keyDir rs =
     (let ips = RangeStart rs; n = HostSize rs
      in Join [keyDir, keyTemplate ips n])"

section \<open>The gap search of multus-ipam (cli.go, ipamGetFreeIPRange)\<close>

text \<open>
  \<open>unit := uint32(math.Pow(2, float64(n)))\<close>. For \<open>n < 32\<close> this is \<open>2^n\<close>; for larger
  \<open>n\<close> the conversion is out of range and Go leaves the value to the implementation
  (0 on amd64, which is also the value of the 32-bit power here).
\<close>

definition applyUnit :: "uint32 \<Rightarrow> uint32" where
  "applyUnit n = 2 ^ unat n"

text \<open>
  The loop over \<open>resp.Kvs\<close>, the keys the coordinator returned in ascending order;
  \<open>lastv\<close> is the loop's variable \<open>last\<close>.
\<close>

fun freeRangeWalk :: "uint32 \<Rightarrow> uint32 \<Rightarrow> (string \<times> string) list \<Rightarrow> error + SimpleRange" where
  "freeRangeWalk unit lastv [] = Inl ErrApplyFailed"
| "freeRangeWalk unit lastv (ev # kvs) =
     (case ipmaLeaseToUint32Range (fst ev) of
        None \<Rightarrow> Inl Panic
      | Some (ips, ipe) \<Rightarrow>
          if ips = 0 then freeRangeWalk unit lastv kvs
          else if ips - lastv < unit then freeRangeWalk unit (ipe + 1) kvs
          else Inr \<lparr>RangeStart = lastv, RangeEnd = lastv + unit - 1\<rparr>)"

text \<open>
  \<open>ipamGetFreeIPRange\<close>; \<open>resp\<close> is what \<open>cli.Get(ctx, keyDir, WithPrefix, WithSort)\<close>
  answered: an error, or the keys and values under \<open>keyDir\<close>.
\<close>

definition ipamGetFreeIPRange ::
  "error + (string \<times> string) list \<Rightarrow> IPNet \<Rightarrow> uint32 \<Rightarrow> error + SimpleRange" where
  "ipamGetFreeIPRange resp subnet n =
     (let unit = applyUnit n;
          (rips, ripe) = Net4To2Uint32 subnet;
          lastv = ripe
      in case resp of
           Inl e \<Rightarrow> Inl ErrGet
         | Inr kvs \<Rightarrow> freeRangeWalk unit lastv kvs)"

section \<open>The gap search of host-etcd (host-etcd/backend/etcdv3/etcdv3.go, GetFreeIPRange)\<close>

text \<open>
  The key is split at \<open>-\<close>; the start is read after the last \<open>/\<close> of the first field and
  the end from the second field (a panic when there is none). A failed \<open>cli.Get\<close> returns
  \<open>(0, 0)\<close> and no error.
\<close>

definition afterLastSlash :: "string \<Rightarrow> string" where
  "afterLastSlash s = rev (takeWhile (\<lambda>c. c \<noteq> CHR ''/'') (rev s))"

fun hostEtcdWalk :: "uint32 \<Rightarrow> (string \<times> string) list \<Rightarrow> (error + uint32 \<times> uint32) + uint32" where
  "hostEtcdWalk lastIP [] = Inr lastIP"
| "hostEtcdWalk lastIP (ev # kvs) =
     (case Split (CHR ''-'') (fst ev) of
        [] \<Rightarrow> Inl (Inl Panic)
      | f0 # rest \<Rightarrow>
          let IPRangeBegin = ParseUint32 (afterLastSlash f0) in
          if IPRangeBegin - lastIP \<le> 1 then
            (case rest of
               [] \<Rightarrow> Inl (Inl Panic)
             | f1 # _ \<Rightarrow> hostEtcdWalk (ParseUint32 f1) kvs)
          else Inl (Inr (lastIP + 1, IPRangeBegin - 1)))"

definition GetFreeIPRange ::
  "error + (string \<times> string) list \<Rightarrow> IPNet \<Rightarrow> uint32 \<Rightarrow> error + uint32 \<times> uint32" where
  "GetFreeIPRange getResp subnet unit =
     (let bIP = IP subnet + 1;
          eIP = bIP + NOT (Mask subnet) - 1
      in case getResp of
           Inl e \<Rightarrow> Inr (0, 0)
         | Inr kvs \<Rightarrow>
             (case hostEtcdWalk bIP kvs of
                Inl r \<Rightarrow> r
              | Inr lastIP \<Rightarrow>
                  if lastIP < eIP then
                    let block = eIP - lastIP;
                        block = (if block > unit then unit else block)
                    in Inr (lastIP + 1, lastIP + block)
                  else Inl ErrCantApply))"

section \<open>The coordinator (etcd) as seen by one process\<close>

text \<open>
  The store is an association list of keys and values. A session has a number; a mutex
  that a session holds is a pair of the session and the mutex name, and goes away when
  the session is unlocked or its lease is revoked by a successful \<open>Close\<close>. The trace
  lists the calls the process makes, in order.
\<close>

datatype event =
    EvNewClient
  | EvCloseClient
  | EvNewSession
  | EvCloseSession
  | EvLock string
  | EvUnlock string
  | EvGet string
  | EvGetPrefix string
  | EvPut string string
  | EvDelete string

record etcd =
  kv :: "(string \<times> string) list"
  sessions :: "nat list"
  held :: "(nat \<times> string) list"
  nextSession :: nat
  clients :: nat
  trace :: "event list"

text \<open>
  The outcome of each remote call of one \<open>TransPutKey\<close> or \<open>TransDelKey\<close>: \<open>True\<close>
  when the call returns no error. A call that returns an error has no effect on the
  store. Waiting for a mutex is not modelled: \<open>m.Lock\<close> acquires it or returns an error.
\<close>

record rpc =
  newOk :: bool
  sessionOk :: bool
  lockOk :: bool
  getOk :: bool
  putOk :: bool
  delOk :: bool
  unlockOk :: bool
  closeOk :: bool

definition evt :: "event \<Rightarrow> etcd \<Rightarrow> etcd" where
  "evt e w = w\<lparr>trace := trace w @ [e]\<rparr>"

definition kvPut :: "string \<Rightarrow> string \<Rightarrow> (string \<times> string) list \<Rightarrow> (string \<times> string) list" where
  "kvPut k v kvs = (k, v) # filter (\<lambda>p. fst p \<noteq> k) kvs"

definition kvDelete :: "string \<Rightarrow> (string \<times> string) list \<Rightarrow> (string \<times> string) list" where
  "kvDelete k kvs = filter (\<lambda>p. fst p \<noteq> k) kvs"

text \<open>\<open>cli.Get(ctx, keyDir, WithPrefix(), WithSort(SortByKey, SortAscend))\<close>.\<close>

definition kvPrefix :: "string \<Rightarrow> (string \<times> string) list \<Rightarrow> (string \<times> string) list" where
  "kvPrefix p kvs = sort_key fst (filter (\<lambda>e. take (length p) (fst e) = p) kvs)"

section \<open>Transactions under the directory mutex (etcdv3/etcdv3.go)\<close>

text \<open>
  \<open>KeyToMutex\<close>: the directory of the key, with \<open>mutex\<close> inserted after its first
  element.
\<close>

definition KeyToMutex :: "string \<Rightarrow> string" where
  "KeyToMutex key =
     (case Split (CHR ''/'') (Dir key) of
        [] \<Rightarrow> []
      | s0 # ss \<Rightarrow> foldl (\<lambda>mutex s. Join [mutex, s]) (Join [s0, ''mutex'']) ss)"

text \<open>
  The deferred calls. \<open>m.Unlock\<close> releases the mutex when it succeeds; \<open>s.Close\<close>
  ends the session and, with it, whatever the session still holds, when it succeeds.
\<close>

definition unlock :: "rpc \<Rightarrow> nat \<Rightarrow> string \<Rightarrow> etcd \<Rightarrow> etcd" where
  "unlock oc sid m w =
     (evt (EvUnlock m) w)\<lparr>held := (if unlockOk oc then remove1 (sid, m) (held w) else held w)\<rparr>"

definition closeSession :: "rpc \<Rightarrow> nat \<Rightarrow> etcd \<Rightarrow> etcd" where
  "closeSession oc sid w =
     (if closeOk oc
      then (evt EvCloseSession w)
             \<lparr>sessions := remove1 sid (sessions w),
              held := filter (\<lambda>h. fst h \<noteq> sid) (held w)\<rparr>
      else evt EvCloseSession w)"

text \<open>
  The part of \<open>TransPutKey\<close> and \<open>TransDelKey\<close> that opens the session, takes the
  mutex, runs the body and then runs the deferred \<open>Unlock\<close> and \<open>Close\<close>.
\<close>

definition underMutex ::
  "rpc \<Rightarrow> string \<Rightarrow> (etcd \<Rightarrow> error option \<times> etcd) \<Rightarrow> etcd \<Rightarrow> error option \<times> etcd" where
  "underMutex oc key body w =
     (if \<not> sessionOk oc then (Some ErrCreateSession, evt EvNewSession w)
      else
        let sid = nextSession w;
            w1 = (evt EvNewSession w)\<lparr>sessions := sid # sessions w, nextSession := Suc sid\<rparr>;
            m = KeyToMutex key
        in if \<not> lockOk oc then (Some ErrLock, closeSession oc sid (evt (EvLock m) w1))
           else
             let w2 = (evt (EvLock m) w1)\<lparr>held := (sid, m) # held w1\<rparr>;
                 (r, w3) = body w2
             in (r, closeSession oc sid (unlock oc sid m w3)))"

text \<open>
  The client: the one passed in, or (\<open>c == nil\<close>, here \<open>hasCli = False\<close>) one made
  with \<open>New\<close> and closed on return.
\<close>

definition openClient :: "etcd \<Rightarrow> etcd" where
  "openClient w = (evt EvNewClient w)\<lparr>clients := Suc (clients w)\<rparr>"

definition closeClient :: "etcd \<Rightarrow> etcd" where
  "closeClient w = (evt EvCloseClient w)\<lparr>clients := clients w - 1\<rparr>"

definition withClient ::
  "rpc \<Rightarrow> bool \<Rightarrow> (etcd \<Rightarrow> error option \<times> etcd) \<Rightarrow> etcd \<Rightarrow> error option \<times> etcd" where
  "withClient oc hasCli body w =
     (if hasCli then body w
      else if \<not> newOk oc then (Some ErrCreateClient, evt EvNewClient w)
      else
        let (r, w1) = body (openClient w)
        in (r, closeClient w1))"

definition putBody :: "rpc \<Rightarrow> string \<Rightarrow> string \<Rightarrow> bool \<Rightarrow> etcd \<Rightarrow> error option \<times> etcd" where
  "putBody oc key val noExist w =
     (if noExist \<and> \<not> getOk oc then (Some ErrCheckKey, evt (EvGet key) w)
      else if noExist \<and> map_of (kv w) key \<noteq> None then (Some ErrKeyExists, evt (EvGet key) w)
      else
        let w1 = (if noExist then evt (EvGet key) w else w);
            w2 = evt (EvPut key val) w1
        in if putOk oc then (None, w2\<lparr>kv := kvPut key val (kv w2)\<rparr>)
           else (Some ErrPut, w2))"

definition TransPutKey ::
  "rpc \<Rightarrow> bool \<Rightarrow> string \<Rightarrow> string \<Rightarrow> bool \<Rightarrow> etcd \<Rightarrow> error option \<times> etcd" where
  "TransPutKey oc hasCli key val noExist w =
     withClient oc hasCli (underMutex oc key (putBody oc key val noExist)) w"

definition delBody :: "rpc \<Rightarrow> string \<Rightarrow> etcd \<Rightarrow> error option \<times> etcd" where
  "delBody oc key w =
     (let w1 = evt (EvDelete key) w
      in if delOk oc then (None, w1\<lparr>kv := kvDelete key (kv w1)\<rparr>)
         else (Some ErrDelete, w1))"

definition TransDelKey :: "rpc \<Rightarrow> bool \<Rightarrow> string \<Rightarrow> etcd \<Rightarrow> error option \<times> etcd" where
  "TransDelKey oc hasCli key w = withClient oc hasCli (underMutex oc key (delBody oc key)) w"


section \<open>Acquiring a lease (cli.go, IPAMApplyIPRange)\<close>

text \<open>\<open>etcdv3.New\<close> returns the client together with the root key and the node's id.\<close>

record EtcdMultus =
  RootKeyDir :: string
  Id :: string

text \<open>
  What the environment decides during one \<open>IPAMApplyIPRange\<close>: the result of
  \<open>etcdv3.New\<close>, whether the prefix read succeeds, the keys that other nodes write
  between the prefix read and the write of the chosen key, and the outcomes of the calls
  of \<open>TransPutKey\<close>.
\<close>

record applyEnv =
  newRes :: "error + EtcdMultus"
  listOk :: bool
  others :: "(string \<times> string) list"
  putRpc :: rpc

definition cliGetPrefix :: "bool \<Rightarrow> string \<Rightarrow> etcd \<Rightarrow> (error + (string \<times> string) list) \<times> etcd" where
  "cliGetPrefix ok keyDir w =
     ((if ok then Inr (kvPrefix keyDir (kv w)) else Inl ErrGet), evt (EvGetPrefix keyDir) w)"

definition otherNodes :: "(string \<times> string) list \<Rightarrow> etcd \<Rightarrow> etcd" where
  "otherNodes ws w = w\<lparr>kv := foldl (\<lambda>s p. kvPut (fst p) (snd p) s) (kv w) ws\<rparr>"

text \<open>\<open>leaseDirVar\<close> is the value of the package variable \<open>leaseDir\<close> (initially "lease").\<close>

definition IPAMApplyIPRange ::
  "applyEnv \<Rightarrow> string \<Rightarrow> string \<Rightarrow> uint32 \<Rightarrow> IPNet \<Rightarrow> etcd \<Rightarrow> (error + SimpleRange) \<times> etcd" where
  "IPAMApplyIPRange env leaseDirVar Name ApplyUnit subnet w =
     (case newRes env of
        Inl e \<Rightarrow> (Inl e, evt EvNewClient w)
      | Inr em \<Rightarrow>
          let keyDir = Join [RootKeyDir em, leaseDirVar, Name];
              (resp, w1) = cliGetPrefix (listOk env) keyDir (openClient w)
          in case ipamGetFreeIPRange resp subnet ApplyUnit of
               Inl e \<Rightarrow> (Inl e, closeClient w1)
             | Inr rs \<Rightarrow>
                 (case TransPutKey (putRpc env) True (ipamSimpleRangeToLease keyDir rs) (Id em) True
                         (otherNodes (others env) w1) of
                    (Some e, w2) \<Rightarrow> (Inl ErrWriteLease, closeClient w2)
                  | (None, w2) \<Rightarrow> (Inr rs, closeClient w2)))"

text \<open>The number of times a trace reads the keys under a prefix: one for each gap search.\<close>

definition searches :: "event list \<Rightarrow> nat" where
  "searches t = length (filter (\<lambda>e. case e of EvGetPrefix k \<Rightarrow> True | _ \<Rightarrow> False) t)"

section \<open>Acquiring a lease in host-etcd (etcdv3.go, ApplyNewIPRange)\<close>

text \<open>
  \<open>keyTemplate = "%10d-%10d"\<close> of host-etcd, and the loop of \<open>ApplyNewIPRange\<close>. The
  client is set up before the loop (\<open>setupRes\<close>). In each round the environment decides
  the result of the prefix read, of the \<open>Put\<close> and of the \<open>Get\<close>, and whether the
  revision of the store moved between the \<open>Put\<close> and the \<open>Get\<close>, in which case the round
  is lost. \<open>k\<close> counts the rounds that remain, \<open>i = maxApplyTry - k + 1\<close>.
\<close>

definition hostKeyTemplate :: "uint32 \<Rightarrow> uint32 \<Rightarrow> string" where
  "hostKeyTemplate b e =
     padLeft (CHR '' '') 10 (dec (unat b)) @ CHR ''-'' # padLeft (CHR '' '') 10 (dec (unat e))"

record hostRound =
  hListOk :: bool
  hPutOk :: bool
  hGetOk :: bool
  hSameRevision :: bool

record hostEnv =
  setupRes :: "error option"
  nodeName :: string
  rounds :: "nat \<Rightarrow> hostRound"

fun applyRounds ::
  "hostEnv \<Rightarrow> string \<Rightarrow> IPNet \<Rightarrow> uint32 \<Rightarrow> nat \<Rightarrow> etcd \<Rightarrow> (error + uint32 \<times> uint32) \<times> etcd" where
  "applyRounds env keyDir subnet unit 0 w = (Inl ErrCantApply, w)"
| "applyRounds env keyDir subnet unit (Suc k) w =
     (let rd = rounds env (maxApplyTry - k);
          (getResp, w1) = cliGetPrefix (hListOk rd) keyDir w
      in case GetFreeIPRange getResp subnet unit of
           Inl e \<Rightarrow> (Inl e, w1)
         | Inr (IPBegin, IPEnd) \<Rightarrow>
             let claimKey = keyDir @ CHR ''/'' # hostKeyTemplate IPBegin IPEnd;
                 w2 = evt (EvPut claimKey (nodeName env)) w1
             in if \<not> hPutOk rd then (Inl (ErrOther ''put''), w2)
                else
                  let w3 = w2\<lparr>kv := kvPut claimKey (nodeName env) (kv w2)\<rparr>;
                      w4 = evt (EvGet claimKey) w3
                  in if \<not> hGetOk rd then (Inl (ErrOther ''get''), w4)
                     else if hSameRevision rd then (Inr (IPBegin, IPEnd), w4)
                     else applyRounds env keyDir subnet unit k w4)"

definition ApplyNewIPRange ::
  "hostEnv \<Rightarrow> string \<Rightarrow> IPNet \<Rightarrow> uint32 \<Rightarrow> etcd \<Rightarrow> (error + uint32 \<times> uint32) \<times> etcd" where
  "ApplyNewIPRange env network subnet unit w =
     (case setupRes env of
        Some e \<Rightarrow> (Inl e, w)
      | None \<Rightarrow>
          let (r, w1) = applyRounds env (''multus'' @ CHR ''/'' # network) subnet unit maxApplyTry
                           (openClient w)
          in (r, closeClient w1))"

section \<open>The local cache and the reconciler (cli.go, ipamCheckNet and IPAMCheck)\<close>

text \<open>
  Modelled from the spec: the package \<open>disk\<close> and the methods \<open>Overlaps\<close> and \<open>Match\<close>
  of \<open>SimpleRange\<close> are not among the sources. The cache is the list of the lines of
  the cache file. \<open>AppendCache\<close> appends a unique line and fails on a duplicate (or when
  the file cannot be written, \<open>ioOk = False\<close>); \<open>DeleteCache\<close> removes the matching
  line; \<open>rangeMatch\<close> is equality of start and end; \<open>rangeOverlap\<close> holds when the two
  ranges share an address.
\<close>

definition Match :: "SimpleRange \<Rightarrow> SimpleRange \<Rightarrow> bool" where
  "Match a b = (RangeStart a = RangeStart b \<and> RangeEnd a = RangeEnd b)"

definition Overlaps :: "SimpleRange \<Rightarrow> SimpleRange \<Rightarrow> bool" where
  "Overlaps a b = (RangeStart a \<le> RangeEnd b \<and> RangeStart b \<le> RangeEnd a)"

definition AppendCache :: "bool \<Rightarrow> SimpleRange \<Rightarrow> SimpleRange list \<Rightarrow> error option \<times> SimpleRange list" where
  "AppendCache ioOk r cache =
     (if \<not> ioOk then (Some (ErrOther ''store-io''), cache)
      else if List.member cache r then (Some (ErrOther ''duplicate''), cache)
      else (None, cache @ [r]))"

definition DeleteCache :: "SimpleRange \<Rightarrow> SimpleRange list \<Rightarrow> SimpleRange list" where
  "DeleteCache r cache = filter (\<lambda>c. c \<noteq> r) cache"

text \<open>
  What the environment decides during one \<open>ipamCheckNet\<close>: whether \<open>disk.New\<close> and
  the two \<open>LoadCache\<close> succeed, whether the \<open>AppendCache\<close> for the \<open>i\<close>-th lease can
  write, and the outcomes of the \<open>TransDelKey\<close> for the \<open>i\<close>-th lease and of the
  \<open>TransPutKey\<close> for the \<open>i\<close>-th cache entry.
\<close>

record checkEnv =
  chkDisk :: bool
  chkLoad1 :: bool
  chkLoad2 :: bool
  chkAppend :: "nat \<Rightarrow> bool"
  chkDel :: "nat \<Rightarrow> rpc"
  chkPut :: "nat \<Rightarrow> rpc"

text \<open>
  The inner loop of the first pass: \<open>caches\<close> is the slice loaded before the pass,
  \<open>file\<close> the cache file, which \<open>DeleteCache\<close> changes. The result says whether an
  entry matched (\<open>last != nil\<close>).
\<close>

fun findMatch :: "SimpleRange \<Rightarrow> SimpleRange list \<Rightarrow> SimpleRange list \<Rightarrow> bool \<times> SimpleRange list" where
  "findMatch lsr [] file = (False, file)"
| "findMatch lsr (csr # caches) file =
     (if Overlaps csr lsr then
        (if Match csr lsr then (True, file)
         else findMatch lsr caches (DeleteCache csr file))
      else findMatch lsr caches file)"

fun checkLeases ::
  "checkEnv \<Rightarrow> string \<Rightarrow> nat \<Rightarrow> SimpleRange list \<Rightarrow> SimpleRange list \<Rightarrow>
   SimpleRange list \<times> etcd \<Rightarrow> SimpleRange list \<times> etcd" where
  "checkLeases env keyDir i [] caches st = st"
| "checkLeases env keyDir i (lsr # leases) caches (file, w) =
     (case findMatch lsr caches file of
        (True, file1) \<Rightarrow> checkLeases env keyDir (Suc i) leases caches (file1, w)
      | (False, file1) \<Rightarrow>
          (case AppendCache (chkAppend env i) lsr file1 of
             (None, file2) \<Rightarrow> checkLeases env keyDir (Suc i) leases caches (file2, w)
           | (Some e, file2) \<Rightarrow>
               checkLeases env keyDir (Suc i) leases caches
                 (file2, snd (TransDelKey (chkDel env i) True (ipamSimpleRangeToLease keyDir lsr) w))))"

text \<open>
  The second pass, over the reloaded cache: an entry that matches no lease is written to
  the coordinator with \<open>TransPutKey(cli, key, id, true)\<close>, and deleted from the cache
  file when that fails.
\<close>

fun checkCaches ::
  "checkEnv \<Rightarrow> string \<Rightarrow> string \<Rightarrow> SimpleRange list \<Rightarrow> nat \<Rightarrow> SimpleRange list \<Rightarrow>
   SimpleRange list \<times> etcd \<Rightarrow> SimpleRange list \<times> etcd" where
  "checkCaches env keyDir ident leases i [] st = st"
| "checkCaches env keyDir ident leases i (csr # caches) (file, w) =
     (if list_ex (\<lambda>lsr. Match csr lsr) leases
      then checkCaches env keyDir ident leases (Suc i) caches (file, w)
      else
        (case TransPutKey (chkPut env i) True (ipamSimpleRangeToLease keyDir csr) ident True w of
           (None, w1) \<Rightarrow> checkCaches env keyDir ident leases (Suc i) caches (file, w1)
         | (Some e, w1) \<Rightarrow>
             checkCaches env keyDir ident leases (Suc i) caches (DeleteCache csr file, w1)))"

definition ipamCheckNet ::
  "checkEnv \<Rightarrow> EtcdMultus \<Rightarrow> string \<Rightarrow> string \<Rightarrow> SimpleRange list \<Rightarrow>
   SimpleRange list \<times> etcd \<Rightarrow> SimpleRange list \<times> etcd" where
  "ipamCheckNet env em leaseDirVar network leases st =
     (if \<not> chkDisk env then st
      else if \<not> chkLoad1 env then st
      else
        let keyDir = Join [RootKeyDir em, leaseDirVar, network];
            st1 = checkLeases env keyDir 0 leases (fst st) st
        in if \<not> chkLoad2 env then st1
           else checkCaches env keyDir (Id em) leases 0 (fst st1) st1)"

text \<open>
  \<open>IPAMGetAllLease\<close>: the leases whose value is the node's id, grouped by network in
  the order of first appearance. A key whose base name holds no \<open>-\<close> makes
  \<open>ipamLeaseToSimleRange\<close> panic.
\<close>

fun addLease :: "string \<Rightarrow> SimpleRange \<Rightarrow> (string \<times> SimpleRange list) list \<Rightarrow> (string \<times> SimpleRange list) list" where
  "addLease network sr [] = [(network, [sr])]"
| "addLease network sr ((n, l) # rest) =
     (if n = network then (n, l @ [sr]) # rest else (n, l) # addLease network sr rest)"

fun collectLeases ::
  "string \<Rightarrow> (string \<times> string) list \<Rightarrow> (string \<times> SimpleRange list) list \<Rightarrow>
   error + (string \<times> SimpleRange list) list" where
  "collectLeases ident [] leases = Inr leases"
| "collectLeases ident (ev # kvs) leases =
     (if Trim (snd ev) = ident then
        (let k = Trim (fst ev); network = Base (Dir k)
         in case ipamLeaseToSimleRange k of
              None \<Rightarrow> Inl Panic
            | Some sr \<Rightarrow> collectLeases ident kvs (addLease network sr leases))
      else collectLeases ident kvs leases)"

definition IPAMGetAllLease ::
  "error + (string \<times> string) list \<Rightarrow> string \<Rightarrow> error + (string \<times> SimpleRange list) list" where
  "IPAMGetAllLease resp ident =
     (case resp of Inl e \<Rightarrow> Inl ErrGet | Inr kvs \<Rightarrow> collectLeases ident kvs [])"

text \<open>
  \<open>IPAMCheck\<close>. The state is the package variable \<open>leaseDir\<close>, the cache file of each
  network and the coordinator. When \<open>etcdv3.New\<close> fails, the fields of the nil
  \<open>etcdMultus\<close> are read before \<open>err\<close> is tested: a panic. The statement
  \<open>leaseDir = filepath.Join(rKeyDir, leaseDir)\<close> assigns the package variable. Go leaves
  the order of the networks open; here it is the order of the list.
\<close>

record checkAllEnv =
  chkNew :: "error + EtcdMultus"
  chkList :: bool
  chkNet :: "string \<Rightarrow> checkEnv"

record node =
  leaseDirVar :: string
  cacheFile :: "string \<Rightarrow> SimpleRange list"
  coord :: etcd

fun checkNets ::
  "checkAllEnv \<Rightarrow> EtcdMultus \<Rightarrow> (string \<times> SimpleRange list) list \<Rightarrow> node \<Rightarrow> node" where
  "checkNets env em [] nd = nd"
| "checkNets env em ((n, l) # rest) nd =
     (let (file, w) = ipamCheckNet (chkNet env n) em (leaseDirVar nd) n l (cacheFile nd n, coord nd)
      in checkNets env em rest (nd\<lparr>cacheFile := (cacheFile nd)(n := file), coord := w\<rparr>))"

definition IPAMCheck :: "checkAllEnv \<Rightarrow> node \<Rightarrow> error option \<times> node" where
  "IPAMCheck env nd =
     (case chkNew env of
        Inl e \<Rightarrow> (Some Panic, nd)
      | Inr em \<Rightarrow>
          let nd1 = nd\<lparr>leaseDirVar := Join [RootKeyDir em, leaseDirVar nd],
                       coord := openClient (coord nd)\<rparr>;
              (resp, w1) = cliGetPrefix (chkList env) (leaseDirVar nd1) (coord nd1);
              nd2 = nd1\<lparr>coord := w1\<rparr>
          in case IPAMGetAllLease resp (Id em) of
               Inl e \<Rightarrow> (Some e, nd2\<lparr>coord := closeClient w1\<rparr>)
             | Inr leases \<Rightarrow>
                 let nd3 = checkNets env em leases nd2
                 in (None, nd3\<lparr>coord := closeClient (coord nd3)\<rparr>))"

section \<open>Liveness of the containers (dockercli, IPAMCheckLocalIPs)\<close>






section \<open>The ADD command of multus-ipam (formRangeSets and allocateIP)\<close>

text \<open>
  Modelled from the spec: \<open>Range.Contains\<close> of the package \<open>allocator\<close> is not among
  the sources; it is the spec's \<open>rangeContains\<close>, the address lies between the start and
  the end of the range. \<open>ip.Cmp\<close> compares two addresses as numbers.
\<close>

definition Contains :: "Range \<Rightarrow> uint32 \<Rightarrow> bool" where
  "Contains r addr = (RangeStart r \<le> addr \<and> addr \<le> RangeEnd r)"

definition Cmp :: "uint32 \<Rightarrow> uint32 \<Rightarrow> int" where
  "Cmp a b = (if a < b then - 1 else if a = b then 0 else 1)"

text \<open>
  \<open>formRangeSets\<close>. The lines of the cache (\<open>"IPStart-IPEnd"\<close>) are taken as parsed: a
  list of \<open>SimpleRange\<close>. The three loops append to \<open>rs\<close> and \<open>rss\<close>.
\<close>

fun clipCache :: "Range \<Rightarrow> SimpleRange list \<Rightarrow> Range list \<Rightarrow> Range list" where
  "clipCache ro [] rs = rs"
| "clipCache ro (cr # cacheRangeSet) rs =
     (if Contains ro (RangeStart cr) \<or> Contains ro (RangeEnd cr) then
        (let r = ro;
             r = (if Cmp (RangeStart ro) (RangeStart cr) < 0 then r\<lparr>RangeStart := RangeStart cr\<rparr> else r);
             r = (if Cmp (RangeEnd ro) (RangeEnd cr) > 0 then r\<lparr>RangeEnd := RangeEnd cr\<rparr> else r)
         in clipCache ro cacheRangeSet (rs @ [r]))
      else clipCache ro cacheRangeSet rs)"

fun clipRangeSet :: "Range list \<Rightarrow> SimpleRange list \<Rightarrow> Range list \<Rightarrow> Range list" where
  "clipRangeSet [] cacheRangeSet rs = rs"
| "clipRangeSet (ro # rso) cacheRangeSet rs = clipRangeSet rso cacheRangeSet (clipCache ro cacheRangeSet rs)"

fun clipOrigin :: "Range list list \<Rightarrow> SimpleRange list \<Rightarrow> Range list list \<Rightarrow> Range list list" where
  "clipOrigin [] cacheRangeSet rss = rss"
| "clipOrigin (rso # origin) cacheRangeSet rss =
     clipOrigin origin cacheRangeSet (rss @ [clipRangeSet rso cacheRangeSet []])"

definition formRangeSets :: "error + SimpleRange list \<Rightarrow> Range list list \<Rightarrow> error + Range list list" where
  "formRangeSets cache origin =
     (case cache of
        Inl e \<Rightarrow> Inl e
      | Inr cacheRangeSet \<Rightarrow> Inr (clipOrigin origin cacheRangeSet []))"

text \<open>
  \<open>allocateIP\<close>. An allocator is the index and the range set it was made from; the
  calls to the allocators, to \<open>ApplyNewIPRange\<close> and to the store are recorded. The
  environment decides \<open>LoadRangeSetFromCache\<close>, the result of the \<open>j\<close>-th \<open>Get\<close> for
  range \<open>idx\<close> and of the \<open>ApplyNewIPRange\<close> in round \<open>i\<close> for range \<open>idx\<close>. The result of
  \<open>Release\<close> is assigned to \<open>_\<close>: it has no place in the model.
\<close>

type_synonym IPAllocator = "nat \<times> Range list"

datatype call =
    CallGet nat "Range list"
  | CallApply nat
  | CallAppendCache uint32 uint32
  | CallFlashCache "Range list list"
  | CallRelease nat "Range list"

record allocEnv =
  cacheRes :: "error + SimpleRange list"
  getRes :: "nat \<Rightarrow> nat \<Rightarrow> error + uint32"
  applyRes :: "nat \<Rightarrow> nat \<Rightarrow> error + uint32 \<times> uint32"

text \<open>\<open>strings.Contains(err.Error(), "no IP addresses available in range set")\<close>.\<close>

definition isNoAddresses :: "error \<Rightarrow> bool" where
  "isNoAddresses e = (e = ErrNoAddresses)"

text \<open>
  The state of one range: \<open>alloc\<close>, \<open>ipConf\<close>, \<open>err\<close> and the calls so far.
  \<open>applyLoop\<close> is the loop \<open>for i := 0; i < 3; i++\<close>, with \<open>k = 3 - i\<close> rounds left;
  \<open>Ranges[idx][0]\<close> panics when the configured range set is empty.
\<close>

type_synonym rangeState = "IPAllocator option \<times> uint32 option \<times> error option \<times> call list"

definition allocGet :: "allocEnv \<Rightarrow> nat \<Rightarrow> nat \<Rightarrow> Range list \<Rightarrow> call list \<Rightarrow> rangeState" where
  "allocGet env idx j rs calls =
     (case getRes env idx j of
        Inl e \<Rightarrow> (Some (idx, rs), None, Some e, calls @ [CallGet idx rs])
      | Inr a \<Rightarrow> (Some (idx, rs), Some a, None, calls @ [CallGet idx rs]))"

fun applyLoop :: "allocEnv \<Rightarrow> Range list list \<Rightarrow> nat \<Rightarrow> nat \<Rightarrow> rangeState \<Rightarrow> rangeState" where
  "applyLoop env Ranges idx 0 st = st"
| "applyLoop env Ranges idx (Suc k) (alloc, ipConf, err, calls) =
     (case err of
        None \<Rightarrow> (alloc, ipConf, err, calls)
      | Some e \<Rightarrow>
          if isNoAddresses e then
            (case (if idx < length Ranges then Ranges ! idx else []) of
               [] \<Rightarrow> (alloc, ipConf, Some Panic, calls)
             | r0 # _ \<Rightarrow>
                 (case applyRes env idx (2 - k) of
                    Inl e1 \<Rightarrow> (alloc, ipConf, Some e1, calls @ [CallApply idx])
                  | Inr (sIP, eIP) \<Rightarrow>
                      let r = r0\<lparr>RangeStart := sIP, RangeEnd := eIP\<rparr>;
                          st1 = allocGet env idx (3 - k) [r]
                                  (calls @ [CallApply idx, CallAppendCache sIP eIP])
                      in (case fst (snd (snd st1)) of
                            None \<Rightarrow> st1
                          | Some e2 \<Rightarrow> applyLoop env Ranges idx k st1)))
          else (alloc, ipConf, err, calls))"

fun releaseAll :: "IPAllocator option list \<Rightarrow> call list \<Rightarrow> bool \<times> call list" where
  "releaseAll [] calls = (True, calls)"
| "releaseAll (None # allocs) calls = (False, calls)"
| "releaseAll (Some a # allocs) calls = releaseAll allocs (calls @ [CallRelease (fst a) (snd a)])"

fun allocRanges ::
  "allocEnv \<Rightarrow> Range list list \<Rightarrow> nat \<Rightarrow> Range list list \<Rightarrow> IPAllocator option list \<Rightarrow>
   uint32 option list \<Rightarrow> call list \<Rightarrow> (error + uint32 option list) \<times> call list" where
  "allocRanges env Ranges idx [] allocs IPs calls = (Inr IPs, calls)"
| "allocRanges env Ranges idx (rs # rss) allocs IPs calls =
     (let st0 = (if rs \<noteq> [] then allocGet env idx 0 rs calls
                 else (None, None, Some ErrNoAddresses, calls))
      in case applyLoop env Ranges idx 3 st0 of
           (alloc, ipConf, Some e, calls1) \<Rightarrow>
             if e = Panic then (Inl Panic, calls1)
             else (case releaseAll allocs calls1 of
                     (True, calls2) \<Rightarrow> (Inl (ErrAllocate idx e), calls2)
                   | (False, calls2) \<Rightarrow> (Inl Panic, calls2))
         | (alloc, ipConf, None, calls1) \<Rightarrow>
             allocRanges env Ranges (Suc idx) rss (allocs @ [alloc]) (IPs @ [ipConf]) calls1)"

definition allocateIP :: "allocEnv \<Rightarrow> Range list list \<Rightarrow> (error + uint32 option list) \<times> call list" where
  "allocateIP env Ranges =
     (case formRangeSets (cacheRes env) Ranges of
        Inl e \<Rightarrow> (Inl e, [])
      | Inr rss \<Rightarrow> allocRanges env Ranges 0 rss [] [] [])"

section \<open>The ADD command of host-etcd (formRangeSets and allocateIP of the older plugin)\<close>

text \<open>
  Modelled from the spec: \<open>RangeSet.RangeFor\<close> is not among the sources; it returns the
  first range of the set that contains the address, or none.
\<close>

definition RangeFor :: "Range list \<Rightarrow> uint32 \<Rightarrow> Range option" where
  "RangeFor rs addr = find (\<lambda>r. Contains r addr) rs"

fun matchCache :: "Range list \<Rightarrow> SimpleRange list \<Rightarrow> Range list \<Rightarrow> Range list" where
  "matchCache ors [] rs = rs"
| "matchCache ors (cr # cacheRangeSet) rs =
     (case RangeFor ors (RangeStart cr) of
        None \<Rightarrow> matchCache ors cacheRangeSet rs
      | Some r \<Rightarrow> matchCache ors cacheRangeSet (rs @ [r]))"

text \<open>
  The loop over \<open>origin\<close>; the result carries \<open>flashCache\<close>. A range set without a
  matching cache line asks \<open>ApplyNewIPRange\<close> for a block (round 0 of that index in the
  environment); \<open>ors[0]\<close> panics on an empty range set.
\<close>

fun hostFormLoop ::
  "allocEnv \<Rightarrow> nat \<Rightarrow> Range list list \<Rightarrow> SimpleRange list \<Rightarrow> bool \<Rightarrow> Range list list \<Rightarrow>
   call list \<Rightarrow> (error + bool \<times> Range list list) \<times> call list" where
  "hostFormLoop env idx [] cacheRangeSet flashCache rss calls = (Inr (flashCache, rss), calls)"
| "hostFormLoop env idx (ors # origin) cacheRangeSet flashCache rss calls =
     (let rs = matchCache ors cacheRangeSet []
      in if rs = [] then
           (case ors of
              [] \<Rightarrow> (Inl Panic, calls)
            | r0 # _ \<Rightarrow>
                (case applyRes env idx 0 of
                   Inl e \<Rightarrow> (Inl e, calls @ [CallApply idx])
                 | Inr (sIP, eIP) \<Rightarrow>
                     hostFormLoop env (Suc idx) origin cacheRangeSet True
                       (rss @ [[r0\<lparr>RangeStart := sIP, RangeEnd := eIP\<rparr>]])
                       (calls @ [CallApply idx])))
         else hostFormLoop env (Suc idx) origin cacheRangeSet flashCache (rss @ [rs]) calls)"

definition hostFormRangeSets ::
  "allocEnv \<Rightarrow> Range list list \<Rightarrow> (error + Range list list) \<times> call list" where
  "hostFormRangeSets env origin =
     (case cacheRes env of
        Inl e \<Rightarrow> (Inl e, [])
      | Inr cacheRangeSet \<Rightarrow>
          (case hostFormLoop env 0 origin cacheRangeSet False [] [] of
             (Inl e, calls) \<Rightarrow> (Inl e, calls)
           | (Inr (flashCache, rss), calls) \<Rightarrow>
               (Inr rss, if flashCache then calls @ [CallFlashCache rss] else calls)))"

text \<open>
  The loop of \<open>allocateIP\<close> in host-etcd. \<open>rss\<close> is the whole slice (an element is
  replaced after a new block served the request), \<open>todo\<close> the range sets still to visit.
  The first \<open>Get\<close> of a range is number 0 and the one after \<open>ApplyNewIPRange\<close> number 1;
  \<open>ApplyNewIPRange\<close> is round 1 of the index. An error of \<open>Get\<close> other than "no IP
  addresses available in range set" reaches the two \<open>append\<close> at the end of the body
  with \<open>ipConf = nil\<close>.
\<close>

fun hostAllocLoop ::
  "allocEnv \<Rightarrow> nat \<Rightarrow> Range list list \<Rightarrow> Range list list \<Rightarrow> bool \<Rightarrow> IPAllocator list \<Rightarrow>
   uint32 option list \<Rightarrow> call list \<Rightarrow> (error + uint32 option list) \<times> call list" where
  "hostAllocLoop env idx [] rss reflashCache allocs IPs calls =
     (Inr IPs, if reflashCache then calls @ [CallFlashCache rss] else calls)"
| "hostAllocLoop env idx (rangeset # todo) rss reflashCache allocs IPs calls =
     (let alloc = (idx, rangeset);
          calls1 = calls @ [CallGet idx rangeset]
      in case getRes env idx 0 of
           Inr a \<Rightarrow>
             hostAllocLoop env (Suc idx) todo rss reflashCache (allocs @ [alloc]) (IPs @ [Some a]) calls1
         | Inl e \<Rightarrow>
             if isNoAddresses e then
               (case rangeset of
                  [] \<Rightarrow> (Inl Panic, calls1)
                | r0 # _ \<Rightarrow>
                    (case applyRes env idx 1 of
                       Inl e1 \<Rightarrow>
                         (Inl (ErrAllocate idx e1),
                          calls1 @ [CallApply idx] @ map (\<lambda>a. CallRelease (fst a) (snd a)) allocs)
                     | Inr (sIP, eIP) \<Rightarrow>
                         let r = r0\<lparr>RangeStart := sIP, RangeEnd := eIP\<rparr>;
                             calls2 = calls1 @ [CallApply idx, CallGet idx [r]]
                         in (case getRes env idx 1 of
                               Inr a \<Rightarrow>
                                 hostAllocLoop env (Suc idx) todo (rss[idx := rss ! idx @ [r]]) True
                                   (allocs @ [alloc]) (IPs @ [Some a]) calls2
                             | Inl e2 \<Rightarrow>
                                 (Inl (ErrAllocate idx e2),
                                  calls2 @ map (\<lambda>a. CallRelease (fst a) (snd a)) allocs))))
             else
               hostAllocLoop env (Suc idx) todo rss reflashCache (allocs @ [alloc]) (IPs @ [None]) calls1)"

definition hostAllocateIP ::
  "allocEnv \<Rightarrow> Range list list \<Rightarrow> (error + uint32 option list) \<times> call list" where
  "hostAllocateIP env Ranges =
     (case hostFormRangeSets env Ranges of
        (Inl e, calls) \<Rightarrow> (Inl e, calls)
      | (Inr rss, calls) \<Rightarrow> hostAllocLoop env 0 rss rss False [] [] calls)"

section \<open>Well-formed states and the inputs of the examples\<close>


text \<open>
  A coordinator that holds the given keys, with no session open; calls that all succeed;
  the subnet 10.0.0.0/24; the lease directory of the network \<open>net1\<close> and the key of the
  block 10.0.0.2 - 10.0.0.17 in it.
\<close>

definition etcdWith :: "(string \<times> string) list \<Rightarrow> etcd" where
  "etcdWith kvs = \<lparr>kv = kvs, sessions = [], held = [], nextSession = 0, clients = 0, trace = []\<rparr>"

definition okRpc :: rpc where
  "okRpc = \<lparr>newOk = True, sessionOk = True, lockOk = True, getOk = True, putOk = True,
            delOk = True, unlockOk = True, closeOk = True\<rparr>"

definition net24 :: IPNet where
  "net24 = \<lparr>IP = 0x0A000000, Mask = 0xFFFFFF00\<rparr>"

definition net1Dir :: string where
  "net1Dir = ''multus/lease/net1''"

definition key2 :: string where
  "key2 = ''multus/lease/net1/0167772162-4''"

definition key254 :: string where
  "key254 = ''multus/lease/net1/0167772414-4''"


definition node1Multus :: EtcdMultus where
  "node1Multus = \<lparr>RootKeyDir = ''multus'', Id = ''node1''\<rparr>"

text \<open>
  The blocks 10.0.0.2 - 10.0.0.17 and 10.0.0.18 - 10.0.0.33, and the range
  10.0.0.2 - 10.0.0.4, whose three addresses are not a power of two.
\<close>

definition block2 :: SimpleRange where
  "block2 = \<lparr>RangeStart = 0x0A000002, RangeEnd = 0x0A000011\<rparr>"

definition block18 :: SimpleRange where
  "block18 = \<lparr>RangeStart = 0x0A000012, RangeEnd = 0x0A000021\<rparr>"

definition three :: SimpleRange where
  "three = \<lparr>RangeStart = 0x0A000002, RangeEnd = 0x0A000004\<rparr>"

text \<open>
  A reconciliation in which every call succeeds, and a node whose package variable
  \<open>leaseDir\<close> has its initial value.
\<close>

definition okCheck :: checkEnv where
  "okCheck = \<lparr>chkDisk = True, chkLoad1 = True, chkLoad2 = True, chkAppend = (\<lambda>i. True),
              chkDel = (\<lambda>i. okRpc), chkPut = (\<lambda>i. okRpc)\<rparr>"

definition nodeWith :: "SimpleRange list \<Rightarrow> (string \<times> string) list \<Rightarrow> node" where
  "nodeWith cache kvs = \<lparr>leaseDirVar = ''lease'', cacheFile = (\<lambda>n. cache), coord = etcdWith kvs\<rparr>"



text \<open>
  Two configured range sets, 10.0.0.0/24 and 10.0.1.0/24, a cache with one block in each,
  and an ADD in which the first range gets 10.0.0.2 and the store fails on the second.
\<close>

definition range10 :: Range where
  "range10 = \<lparr>RangeStart = 0x0A000001, RangeEnd = 0x0A0000FE, Subnet = net24,
              Gateway = Some 0x0A000001\<rparr>"

definition range11 :: Range where
  "range11 = \<lparr>RangeStart = 0x0A000101, RangeEnd = 0x0A0001FE,
              Subnet = \<lparr>IP = 0x0A000100, Mask = 0xFFFFFF00\<rparr>, Gateway = Some 0x0A000101\<rparr>"

definition twoBlocks :: "SimpleRange list" where
  "twoBlocks = [block2, \<lparr>RangeStart = 0x0A000102, RangeEnd = 0x0A000111\<rparr>]"

definition storeFails :: allocEnv where
  "storeFails = \<lparr>cacheRes = Inr twoBlocks,
                 getRes = (\<lambda>idx j. if idx = 0 then Inr 0x0A000002 else Inl (ErrOther ''store-io'')),
                 applyRes = (\<lambda>idx i. Inl ErrCantApply)\<rparr>"

text \<open>
  A path element that \<open>filepath.Clean\<close> copies: not empty, without a slash, and neither
  \<open>.\<close> nor \<open>..\<close>.
\<close>

definition realElem :: "string \<Rightarrow> bool" where
  "realElem e = (e \<noteq> [] \<and> CHR ''/'' \<notin> set e \<and> e \<noteq> ''.'' \<and> e \<noteq> ''..'')"

section \<open>Evaluation of the library functions on the examples\<close>

lemmas str_defs = Base_def Dir_def Clean_def Join_def StrToUint32_def isDigit_def decValue_def
  digitVal_def Uint32AddSeg_def digitChar_def padLeft_def

lemmas trans_defs = TransPutKey_def TransDelKey_def withClient_def underMutex_def putBody_def
  delBody_def unlock_def closeSession_def openClient_def closeClient_def evt_def

lemma dec_4: "dec 4 = ''4''"
  by (simp add: dec.simps digitChar_def)

lemma dec_167772414: "dec 167772414 = ''167772414''"
  by (simp add: dec.simps digitChar_def)

lemma dec_167772162: "dec 167772162 = ''167772162''"
  by (simp add: dec.simps digitChar_def)

lemma lease_of_key2: "ipmaLeaseToUint32Range key2 = Some (0x0A000002, 0x0A000011)"
  by (simp add: key2_def ipmaLeaseToUint32Range_def str_defs)

lemma HostSize_block254: "HostSize \<lparr>RangeStart = 0x0A0000FE, RangeEnd = 0x0A00010D\<rparr> = 4"
  by (simp add: HostSize_def rangeSize_def upt_rec)

lemma key_of_block254:
  "ipamSimpleRangeToLease net1Dir \<lparr>RangeStart = 0x0A0000FE, RangeEnd = 0x0A00010D\<rparr> = key254"
  by (simp add: ipamSimpleRangeToLease_def HostSize_block254 keyTemplate_def dec_167772414 dec_4
      str_defs net1Dir_def key254_def)

lemma Join_net1Dir: "Join [''multus'', ''lease'', ''net1''] = net1Dir"
  by (simp add: str_defs net1Dir_def)

lemma KeyToMutex_key254: "KeyToMutex key254 = ''multus/mutex/lease/net1''"
  by (simp add: KeyToMutex_def str_defs key254_def)


lemma kvPrefix_key2: "kvPrefix net1Dir [(key2, v)] = [(key2, v)]"
  by (simp add: kvPrefix_def net1Dir_def key2_def)

lemma Net4To2Uint32_net24: "Net4To2Uint32 net24 = (0x0A000001, 0x0A0000FE)"
  by (simp add: Net4To2Uint32_def net24_def)

lemma dec_167772178: "dec 167772178 = ''167772178''"
  by (simp add: dec.simps digitChar_def)

lemma HostSize_block18: "HostSize block18 = 4"
  by (simp add: HostSize_def rangeSize_def block18_def upt_rec)



lemma Join_leaseDir: "Join [''multus'', ''lease''] = ''multus/lease''"
  by (simp add: str_defs)

lemma kvPrefix_lease: "kvPrefix ''multus/lease'' [(key2, v)] = [(key2, v)]"
  by (simp add: kvPrefix_def key2_def)

lemma network_of_key2: "Base (Dir key2) = ''net1''"
  by (simp add: key2_def str_defs)

lemma Trim_key2: "Trim key2 = key2"
  by (simp add: key2_def Trim_def isBlank_def)

lemma Trim_node1: "Trim ''node1'' = ''node1''"
  by (simp add: Trim_def isBlank_def)

lemma leases_of_node1:
  "IPAMGetAllLease (Inr [(key2, ''node1'')]) ''node1'' = Inr [(''net1'', [block2])]"
  using lease_of_key2
  by (simp add: IPAMGetAllLease_def network_of_key2 Trim_node1 Trim_key2 ipamLeaseToSimleRange_def
      block2_def)

lemma Join_reconciler_dir: "Join [''multus'', ''multus/lease'', ''net1''] = ''multus/multus/lease/net1''"
  by (simp add: str_defs)

lemma key_of_block18_reconciler: "ipamSimpleRangeToLease ''multus/multus/lease/net1'' block18 = ''multus/multus/lease/net1/0167772178-4''"
  by (simp add: ipamSimpleRangeToLease_def HostSize_block18 [unfolded block18_def] keyTemplate_def
      dec_167772178 dec_4 str_defs block18_def)

lemma KeyToMutex_reconciler: "KeyToMutex ''multus/multus/lease/net1/0167772178-4'' = ''multus/mutex/multus/lease/net1''"
  by (simp add: KeyToMutex_def str_defs)

section \<open>Properties of the gap search\<close>

lemma freeRangeWalk_Nil: "freeRangeWalk unit lastv [] = Inl ErrApplyFailed"
  by simp

text \<open>A block that the walk returns has \<open>unit\<close> addresses, in 32-bit arithmetic.\<close>

lemma freeRangeWalk_block_size:
  "freeRangeWalk unit lastv kvs = Inr r \<Longrightarrow> RangeEnd r = RangeStart r + unit - 1"
  by (induction unit lastv kvs rule: freeRangeWalk.induct) (auto split: option.splits if_splits)

text \<open>
  Claim C1, on the code: with no lease key under the network's directory the loop of
  \<open>ipamGetFreeIPRange\<close> has nothing to iterate over and the function returns the error
  "apply ip range failed", for every subnet and every exponent; it returns no block.
\<close>

theorem ipamGetFreeIPRange_no_keys_fails:
  "ipamGetFreeIPRange (Inr []) subnet n = Inl ErrApplyFailed"
  by (simp add: ipamGetFreeIPRange_def Let_def split: prod.splits)

text \<open>
  The search of host-etcd has code after its loop for the free tail of the subnet: with no
  key it returns the block 10.0.0.2 - 10.0.0.17 of 10.0.0.0/24 for a unit of 16.
\<close>

lemma GetFreeIPRange_no_keys: "GetFreeIPRange (Inr []) net24 16 = Inr (0x0A000002, 0x0A000011)"
  by (simp add: GetFreeIPRange_def net24_def)

text \<open>
  In 10.0.0.0/28 the same search returns 10.0.0.2 - 10.0.0.15: fewer addresses than the
  unit, and the last one is the broadcast address.
\<close>

lemma GetFreeIPRange_small_subnet:
  "GetFreeIPRange (Inr []) \<lparr>IP = 0x0A000000, Mask = 0xFFFFFFF0\<rparr> 16 = Inr (0x0A000002, 0x0A00000F)"
  by (simp add: GetFreeIPRange_def)

lemma gap_search_key2:
  "ipamGetFreeIPRange (Inr [(key2, v)]) net24 4 = Inr \<lparr>RangeStart = 0x0A0000FE, RangeEnd = 0x0A00010D\<rparr>"
  by (simp add: ipamGetFreeIPRange_def applyUnit_def Net4To2Uint32_net24 lease_of_key2)

text \<open>
  Claim C2, on the code: in 10.0.0.0/24 (usable range 10.0.0.1 - 10.0.0.254) with the one
  lease 10.0.0.2 - 10.0.0.17 and \<open>n = 4\<close>, \<open>ipamGetFreeIPRange\<close> returns the block
  10.0.0.254 - 10.0.1.13: the walk starts at the last usable address (\<open>last := ripe\<close>),
  and the block leaves the subnet.
\<close>

theorem ipamGetFreeIPRange_block_leaves_subnet:
  "ipamGetFreeIPRange (Inr [(key2, ''node1'')]) net24 4 =
     Inr \<lparr>RangeStart = 0x0A0000FE, RangeEnd = 0x0A00010D\<rparr> \<and>
   Net4To2Uint32 net24 = (0x0A000001, 0x0A0000FE) \<and>
   (0x0A0000FE :: uint32) < 0x0A00010D"
  by (simp add: ipamGetFreeIPRange_def applyUnit_def Net4To2Uint32_net24 lease_of_key2)

section \<open>Properties of the transactions\<close>

lemma map_of_kvPut: "map_of (kvPut k v kvs) k' = (if k' = k then Some v else map_of kvs k')"
  by (induction kvs) (auto simp: kvPut_def)








section \<open>Properties of lease acquisition\<close>

text \<open>
  Claim C4, on the code: node1 finds the block 10.0.0.254 - 10.0.1.13, another node
  writes its key before node1 does, \<open>TransPutKey\<close> returns "key exists", and
  \<open>IPAMApplyIPRange\<close> returns "write key failed" after this one attempt: the trace holds
  one gap search and one transaction. The variable \<open>maxApplyTry\<close> of cli.go is not used.
\<close>

theorem IPAMApplyIPRange_race_lost_no_retry:
  "fst (IPAMApplyIPRange
          \<lparr>newRes = Inr node1Multus, listOk = True, others = [(key254, ''node2'')], putRpc = okRpc\<rparr>
          ''lease'' ''net1'' 4 net24 (etcdWith [(key2, ''node2'')])) = Inl ErrWriteLease \<and>
   trace (snd (IPAMApplyIPRange
          \<lparr>newRes = Inr node1Multus, listOk = True, others = [(key254, ''node2'')], putRpc = okRpc\<rparr>
          ''lease'' ''net1'' 4 net24 (etcdWith [(key2, ''node2'')]))) =
     [EvNewClient, EvGetPrefix net1Dir, EvNewSession, EvLock ''multus/mutex/lease/net1'',
      EvGet key254, EvUnlock ''multus/mutex/lease/net1'', EvCloseSession, EvCloseClient]"
  by (simp add: IPAMApplyIPRange_def node1Multus_def Join_net1Dir cliGetPrefix_def etcdWith_def
      kvPrefix_key2 gap_search_key2 key_of_block254 okRpc_def
      otherNodes_def kvPut_def trans_defs KeyToMutex_key254 Let_def)

text \<open>With no key under the lease directory of the network, \<open>IPAMApplyIPRange\<close> fails.\<close>

lemma IPAMApplyIPRange_no_keys:
  assumes "newRes env = Inr em" "listOk env"
    and "kvPrefix (Join [RootKeyDir em, ldv, nm]) (kv w) = []"
  shows "fst (IPAMApplyIPRange env ldv nm u subnet w) = Inl ErrApplyFailed"
  using assms
  by (simp add: IPAMApplyIPRange_def cliGetPrefix_def openClient_def evt_def
      ipamGetFreeIPRange_def Let_def split: prod.splits)

text \<open>
  \<open>IPAMApplyIPRange\<close> searches once, whatever happens; \<open>ApplyNewIPRange\<close> of host-etcd
  starts a new round, with a new search, after a round that lost the race, and makes at
  most \<open>maxApplyTry\<close> rounds.
\<close>

lemma searches_append: "searches (t @ u) = searches t + searches u"
  by (simp add: searches_def)

lemma searches_Nil: "searches [] = 0"
  by (simp add: searches_def)

lemma searches_Cons:
  "searches (e # t) = (case e of EvGetPrefix k \<Rightarrow> Suc (searches t) | _ \<Rightarrow> searches t)"
  by (simp add: searches_def split: event.splits)

lemma searches_TransPutKey:
  "searches (trace (snd (TransPutKey oc hasCli key val noExist w))) = searches (trace w)"
  by (simp add: trans_defs Let_def searches_append searches_Cons searches_Nil split: prod.splits)

lemma IPAMApplyIPRange_one_search:
  "searches (trace (snd (IPAMApplyIPRange env ldv nm u subnet w))) \<le> Suc (searches (trace w))"
  by (simp add: IPAMApplyIPRange_def Let_def cliGetPrefix_def closeClient_def openClient_def
      evt_def case_prod_beta otherNodes_def searches_append searches_Cons searches_Nil
      searches_TransPutKey split: sum.splits option.splits)

lemma applyRounds_searches:
  "searches (trace (snd (applyRounds env keyDir subnet unit k w))) \<le> searches (trace w) + k"
proof (induction k arbitrary: w)
  case 0
  then show ?case by simp
next
  case (Suc k)
  have step: "searches (trace (evt (EvGet c) ((evt (EvPut c v) (evt (EvGetPrefix keyDir) w))\<lparr>kv := x\<rparr>)))
                = Suc (searches (trace w))" for c v x
    by (simp add: evt_def searches_def)
  show ?case
    using Suc.IH [of "evt (EvGet c) ((evt (EvPut c v) (evt (EvGetPrefix keyDir) w))\<lparr>kv := x\<rparr>)" for c v x]
    by (auto simp add: Let_def cliGetPrefix_def step split: sum.splits prod.splits)
       (auto simp add: evt_def searches_def)
qed

lemma applyRounds_lost_round:
  assumes "GetFreeIPRange (Inr (kvPrefix keyDir (kv w))) subnet unit = Inr (b, e)"
    and "hListOk (rounds env (maxApplyTry - k))" "hPutOk (rounds env (maxApplyTry - k))"
      "hGetOk (rounds env (maxApplyTry - k))" "\<not> hSameRevision (rounds env (maxApplyTry - k))"
  shows "\<exists>w1. applyRounds env keyDir subnet unit (Suc k) w = applyRounds env keyDir subnet unit k w1 \<and>
              searches (trace w1) = Suc (searches (trace w))"
  using assms
  apply (simp add: Let_def cliGetPrefix_def evt_def)
  apply (rule exI, rule conjI, rule refl)
  apply (simp add: searches_append searches_Cons searches_Nil)
  done

section \<open>Properties of the lease keys\<close>

text \<open>Decimal digits are written and read back.\<close>

lemma digit_cases: "d < 10 \<Longrightarrow> d \<in> {0,1,2,3,4,5,6,7,8,9::nat}"
  by auto

lemma isDigit_digitChar: "d < 10 \<Longrightarrow> isDigit (digitChar d)"
  by (drule digit_cases) (auto simp: isDigit_def digitChar_def)

lemma digitVal_digitChar: "d < 10 \<Longrightarrow> digitVal (digitChar d) = d"
  by (drule digit_cases) (auto simp: digitVal_def digitChar_def)

lemma dec_nonempty: "dec n \<noteq> []"
  by (subst dec.simps) simp

lemma dec_digits: "list_all isDigit (dec n)"
  by (induction n rule: dec.induct) (subst dec.simps, simp add: isDigit_digitChar)

lemma decValue_snoc: "decValue (xs @ [c]) = 10 * decValue xs + digitVal c"
  by (simp add: decValue_def)

lemma decValue_dec: "decValue (dec n) = n"
proof (induction n rule: dec.induct)
  case (1 n)
  show ?case
  proof (cases "n < 10")
    case True
    then show ?thesis by (subst dec.simps) (simp add: decValue_def digitVal_digitChar)
  next
    case False
    then show ?thesis using 1 by (subst dec.simps) (simp add: decValue_snoc digitVal_digitChar)
  qed
qed

lemma decValue_zeros: "decValue (replicate k (CHR ''0'') @ s) = decValue s"
proof -
  have "foldl (\<lambda>acc c. 10 * acc + digitVal c) 0 (replicate k (CHR ''0'')) = 0"
    by (induction k) (simp_all add: digitVal_def)
  then show ?thesis by (simp add: decValue_def)
qed

lemma isDigit_not_sep: "isDigit c \<Longrightarrow> c \<noteq> CHR ''-'' \<and> c \<noteq> CHR ''/'' \<and> c \<noteq> CHR ''.''"
  by (auto simp: isDigit_def)

lemma digits_no_sep: "list_all isDigit s \<Longrightarrow> CHR ''-'' \<notin> set s \<and> CHR ''/'' \<notin> set s \<and> CHR ''.'' \<notin> set s"
  by (induction s) (auto dest: isDigit_not_sep)

lemma Split_nonempty: "Split c xs \<noteq> []"
  by (induction xs) (auto split: list.splits)

lemma Split_none: "c \<notin> set xs \<Longrightarrow> Split c xs = [xs]"
  by (induction xs) auto

lemma Split_append: "Split c (xs @ c # ys) = Split c xs @ Split c ys"
proof (induction xs)
  case Nil
  then show ?case by simp
next
  case (Cons x xs)
  then show ?case using Split_nonempty [of c xs]
    by (cases "Split c xs") auto
qed

lemma isDigit_zero: "isDigit (CHR ''0'')"
  by (simp add: isDigit_def)

lemma zeros_only: "list_all isDigit (replicate k (CHR ''0''))"
  by (induction k) (simp_all add: isDigit_zero)

lemma zeros_digits: "list_all isDigit (replicate k (CHR ''0'') @ dec n)"
  by (induction k) (simp_all add: dec_digits isDigit_zero)

lemma StrToUint32_padded: "StrToUint32 (padLeft (CHR ''0'') 10 (dec (unat (w :: uint32)))) = w"
proof -
  have "unat w < 2 ^ 32" using unsigned_less [of w] by simp
  then show ?thesis
    by (simp add: StrToUint32_def padLeft_def decValue_zeros decValue_dec zeros_only dec_digits dec_nonempty)
qed

lemma StrToUint32_dec: "n < 2 ^ 32 \<Longrightarrow> StrToUint32 (dec n) = of_nat n"
  by (simp add: StrToUint32_def decValue_dec dec_digits dec_nonempty)

text \<open>Paths: the last element of a joined path is its base name.\<close>

lemma cleanElems_append:
  "cleanElems rooted stack (es @ fs) = cleanElems rooted (cleanElems rooted stack es) fs"
  by (induction es arbitrary: stack) (auto split: list.splits)

lemma JoinSlash_snoc: "JoinSlash (xs @ [e]) = (if xs = [] then e else JoinSlash xs @ CHR ''/'' # e)"
  by (induction xs rule: JoinSlash.induct) auto

lemma Clean_last_elem:
  assumes "realElem e" and "p = [] \<or> last p = CHR ''/''"
  shows "\<exists>q. Clean (p @ e) = q @ e \<and> (q = [] \<or> last q = CHR ''/'')"
proof -
  from assms(1) have e: "e \<noteq> []" "CHR ''/'' \<notin> set e" "e \<noteq> ''.''" "e \<noteq> ''..''"
    by (auto simp: realElem_def)
  obtain es where es: "Split (CHR ''/'') (p @ e) = es @ [e]"
  proof (cases "p = []")
    case True
    then have "Split (CHR ''/'') (p @ e) = [] @ [e]" using e by (simp add: Split_none)
    then show ?thesis using that by blast
  next
    case False
    with assms(2) obtain p' where "p = p' @ [CHR ''/'']"
      by (metis append_butlast_last_id)
    then have "Split (CHR ''/'') (p @ e) = Split (CHR ''/'') p' @ [e]"
      using e by (simp add: Split_append Split_none)
    then show ?thesis using that by blast
  qed
  define rooted where "rooted = (hd (p @ e) = CHR ''/'')"
  define st where "st = cleanElems rooted [] es"
  have "cleanElems rooted [] (Split (CHR ''/'') (p @ e)) = e # st"
    using e by (simp add: es cleanElems_append st_def)
  then have out: "JoinSlash (rev (cleanElems rooted [] (Split (CHR ''/'') (p @ e)))) =
      (if st = [] then e else JoinSlash (rev st) @ CHR ''/'' # e)"
    by (simp add: JoinSlash_snoc)
  have "Clean (p @ e) = (if rooted then ''/'' else []) @ (if st = [] then e else JoinSlash (rev st) @ CHR ''/'' # e)"
    using e out by (simp add: Clean_def rooted_def Let_def)
  then show ?thesis
    by (cases rooted; cases "st = []") (auto intro: exI [where x = "''/''"] exI [where x = "[]"]
        exI [where x = "JoinSlash (rev st) @ ''/''"] exI [where x = "''/'' @ JoinSlash (rev st) @ ''/''"])
qed

lemma Base_last_elem:
  assumes "realElem e" and "q = [] \<or> last q = CHR ''/''"
  shows "Base (q @ e) = e"
proof -
  from assms(1) have e: "e \<noteq> []" "CHR ''/'' \<notin> set e" by (auto simp: realElem_def)
  then have hd: "hd (rev e) \<noteq> CHR ''/''"
    by (metis hd_rev last_in_set)
  have dw: "dropWhile (\<lambda>c. c = CHR ''/'') (rev e @ rev q) = rev e @ rev q"
    using e hd by (cases "rev e") auto
  have tw: "takeWhile (\<lambda>c. c \<noteq> CHR ''/'') (rev e @ rev q) = rev e"
  proof (cases "q = []")
    case True
    then show ?thesis using e by (auto simp: takeWhile_eq_all_conv)
  next
    case False
    with assms(2) have "hd (rev q) = CHR ''/''" by (simp add: hd_rev)
    with False have "takeWhile (\<lambda>c. c \<noteq> CHR ''/'') (rev q) = []"
      by (cases "rev q") auto
    moreover have "takeWhile (\<lambda>c. c \<noteq> CHR ''/'') (rev e @ rev q) =
        rev e @ takeWhile (\<lambda>c. c \<noteq> CHR ''/'') (rev q)"
      by (rule takeWhile_append2) (use e in auto)
    ultimately show ?thesis by simp
  qed
  show ?thesis using e by (simp add: Base_def dw tw)
qed

lemma Base_Join:
  assumes "realElem e"
  shows "Base (Join [keyDir, e]) = e"
proof -
  from assms have ne: "e \<noteq> []" by (simp add: realElem_def)
  have "\<exists>p. Join [keyDir, e] = Clean (p @ e) \<and> (p = [] \<or> last p = CHR ''/'')"
  proof (cases "keyDir = []")
    case True
    then have "Join [keyDir, e] = Clean ([] @ e)" using ne by (simp add: Join_def)
    then show ?thesis by blast
  next
    case False
    then have "Join [keyDir, e] = Clean ((keyDir @ ''/'') @ e)" by (simp add: Join_def)
    then show ?thesis by (metis last_snoc)
  qed
  then obtain p where p: "Join [keyDir, e] = Clean (p @ e)" "p = [] \<or> last p = CHR ''/''" by blast
  from Clean_last_elem [OF assms p(2)] obtain q where
    "Clean (p @ e) = q @ e" "q = [] \<or> last q = CHR ''/''" by blast
  then show ?thesis using Base_last_elem [OF assms] p(1) by simp
qed

lemma realElem_keyTemplate: "realElem (keyTemplate ips n)"
proof -
  have "CHR ''/'' \<notin> set (padLeft (CHR ''0'') 10 (dec (unat ips)))"
    using digits_no_sep [OF zeros_digits] by (simp add: padLeft_def)
  moreover have "CHR ''/'' \<notin> set (dec n)" using digits_no_sep [OF dec_digits] by simp
  moreover have m: "CHR ''-'' \<in> set (keyTemplate ips n)" by (simp add: keyTemplate_def)
  moreover have "keyTemplate ips n \<noteq> ''.''" using m by auto
  moreover have "keyTemplate ips n \<noteq> ''..''" using m by auto
  moreover have "keyTemplate ips n \<noteq> []" using m by auto
  ultimately show ?thesis
    by (simp add: realElem_def keyTemplate_def)
qed

lemma Split_keyTemplate:
  "Split (CHR ''-'') (keyTemplate ips n) = [padLeft (CHR ''0'') 10 (dec (unat ips)), dec n]"
proof -
  have "CHR ''-'' \<notin> set (padLeft (CHR ''0'') 10 (dec (unat ips)))"
    using digits_no_sep [OF zeros_digits] by (simp add: padLeft_def)
  moreover have "CHR ''-'' \<notin> set (dec n)" using digits_no_sep [OF dec_digits] by simp
  ultimately show ?thesis
    by (simp add: keyTemplate_def Split_append Split_none)
qed

lemma decode_encode:
  assumes "n \<le> 32"
  shows "ipmaLeaseToUint32Range (Join [keyDir, keyTemplate ips n]) = Some (ips, ips + 2 ^ n - 1)"
proof -
  have "n < 2 ^ 32" using assms by (rule le_less_trans) simp
  moreover have "unat (of_nat n :: uint32) = n"
    using assms by (simp add: unat_of_nat)
  ultimately show ?thesis
    by (simp add: ipmaLeaseToUint32Range_def Base_Join realElem_keyTemplate Split_keyTemplate
        StrToUint32_padded StrToUint32_dec Uint32AddSeg_def)
qed

lemma HostSize_power:
  assumes "rangeSize r = 2 ^ n" "n \<le> 32"
  shows "HostSize r = n"
proof -
  have "find (\<lambda>m. (2::nat) ^ n \<le> 2 ^ m) [0..<33] = Some n"
    using assms(2) by (auto simp: find_Some_iff intro!: exI [where x = n])
  then show ?thesis by (simp add: HostSize_def assms(1))
qed

lemma end_of_power_range:
  assumes "rangeSize r = 2 ^ n" "n \<le> 32"
  shows "RangeEnd r = RangeStart r + 2 ^ n - 1"
proof -
  have "unat (RangeEnd r - RangeStart r) = 2 ^ n - 1" using assms(1) by (simp add: rangeSize_def)
  then have "RangeEnd r - RangeStart r = of_nat (2 ^ n - 1)"
    using of_nat_unat [of "RangeEnd r - RangeStart r", where 'a = "32 word"] by simp
  also have "\<dots> = 2 ^ n - 1" by (simp add: of_nat_diff)
  finally show ?thesis by (simp add: algebra_simps)
qed

text \<open>
  Claim C6 as stated fails: the key stores the exponent and not the end. The range
  10.0.0.2 - 10.0.0.4 is written as \<open>0167772162-2\<close> and read back as
  10.0.0.2 - 10.0.0.5.
\<close>

lemma HostSize_three: "HostSize three = 2"
  by (simp add: HostSize_def rangeSize_def three_def upt_rec)

theorem lease_key_round_trip_counterexample:
  "ipamLeaseToSimleRange (ipamSimpleRangeToLease net1Dir three) =
     Some \<lparr>RangeStart = 0x0A000002, RangeEnd = 0x0A000005\<rparr> \<and>
   ipamLeaseToSimleRange (ipamSimpleRangeToLease net1Dir three) \<noteq> Some three"
  using decode_encode [of 2 net1Dir "0x0A000002"]
  by (simp add: ipamLeaseToSimleRange_def ipamSimpleRangeToLease_def HostSize_three [unfolded three_def]
      three_def)

text \<open>
  Claim C6, amended: for every key directory and every range whose number of addresses
  is a power of two, \<open>2^n\<close> with \<open>n \<le> 32\<close>, decoding the key encoded from the range
  gives the range back.
\<close>

theorem lease_key_round_trip:
  assumes "rangeSize r = 2 ^ n" "n \<le> 32"
  shows "ipamLeaseToSimleRange (ipamSimpleRangeToLease keyDir r) = Some r"
  using decode_encode [OF assms(2), of keyDir "RangeStart r"] end_of_power_range [OF assms]
  by (simp add: ipamLeaseToSimleRange_def ipamSimpleRangeToLease_def HostSize_power [OF assms])

theorem lease_key_round_trip_witness:
  "rangeSize block2 = 2 ^ 4 \<and> (4::nat) \<le> 32 \<and>
   ipamLeaseToSimleRange (ipamSimpleRangeToLease net1Dir block2) = Some block2"
proof -
  have size: "rangeSize block2 = 2 ^ 4" by (simp add: rangeSize_def block2_def)
  have le: "(4::nat) \<le> 32" by simp
  show ?thesis using size le lease_key_round_trip [OF size le, of net1Dir] by simp
qed

section \<open>Properties of the reconciler\<close>

lemma TransPutKey_kv:
  "kv (snd (TransPutKey oc hasCli key val True w)) =
     (if fst (TransPutKey oc hasCli key val True w) = None then kvPut key val (kv w) else kv w) \<and>
   (fst (TransPutKey oc hasCli key val True w) = None \<longrightarrow> map_of (kv w) key = None)"
  by (simp add: trans_defs Let_def split: prod.splits)

lemma TransPutKey_keeps:
  assumes "map_of (kv w) k = Some v"
  shows "map_of (kv (snd (TransPutKey oc hasCli key val True w))) k = Some v"
  using assms TransPutKey_kv [of oc hasCli key val w]
  by (auto simp: map_of_kvPut)

lemma DeleteCache_others: "filter (\<lambda>c. c \<noteq> csr) (DeleteCache csr cfile) = filter (\<lambda>c. c \<noteq> csr) cfile"
  by (simp add: DeleteCache_def)




text \<open>The whole second pass.\<close>

lemma checkCaches_result:
  "set (fst (checkCaches env keyDir ident leases i caches (cfile, w))) \<subseteq> set cfile \<and>
   (\<forall>c \<in> set cfile. list_ex (\<lambda>lsr. Match c lsr) leases \<or> c \<notin> set caches \<longrightarrow>
       c \<in> set (fst (checkCaches env keyDir ident leases i caches (cfile, w)))) \<and>
   (\<forall>k v. map_of (kv w) k = Some v \<longrightarrow>
       map_of (kv (snd (checkCaches env keyDir ident leases i caches (cfile, w)))) k = Some v) \<and>
   (\<forall>c \<in> set caches. \<not> list_ex (\<lambda>lsr. Match c lsr) leases \<and>
       c \<in> set (fst (checkCaches env keyDir ident leases i caches (cfile, w))) \<longrightarrow>
       map_of (kv (snd (checkCaches env keyDir ident leases i caches (cfile, w))))
         (ipamSimpleRangeToLease keyDir c) = Some ident)"
proof (induction caches arbitrary: i cfile w)
  case Nil
  then show ?case by simp
next
  case (Cons csr caches)
  show ?case
  proof (cases "list_ex (\<lambda>lsr. Match csr lsr) leases")
    case True
    then show ?thesis using Cons.IH [of "Suc i" cfile w] by auto
  next
    case False
    obtain r w1 where put: "TransPutKey (chkPut env i) True (ipamSimpleRangeToLease keyDir csr) ident True w = (r, w1)"
      by (cases "TransPutKey (chkPut env i) True (ipamSimpleRangeToLease keyDir csr) ident True w")
    note kvs = TransPutKey_kv [of "chkPut env i" True "ipamSimpleRangeToLease keyDir csr" ident w]
    have keep: "map_of (kv w) k = Some v \<Longrightarrow> map_of (kv w1) k = Some v" for k v
      using TransPutKey_keeps [of w k v "chkPut env i" True "ipamSimpleRangeToLease keyDir csr" ident] put by simp
    show ?thesis
    proof (cases r)
      case None
      then have step: "checkCaches env keyDir ident leases i (csr # caches) (cfile, w) =
          checkCaches env keyDir ident leases (Suc i) caches (cfile, w1)"
        using False put by simp
      have here: "map_of (kv w1) (ipamSimpleRangeToLease keyDir csr) = Some ident"
        using kvs put None by (simp add: map_of_kvPut)
      show ?thesis unfolding step using Cons.IH [of "Suc i" cfile w1] keep here False
        by (auto)
    next
      case (Some e)
      then have step: "checkCaches env keyDir ident leases i (csr # caches) (cfile, w) =
          checkCaches env keyDir ident leases (Suc i) caches (DeleteCache csr cfile, w1)"
        using False put by simp
      have sub: "set (DeleteCache csr cfile) = set cfile - {csr}" by (auto simp: DeleteCache_def)
      show ?thesis unfolding step using Cons.IH [of "Suc i" "DeleteCache csr cfile" w1] keep False sub
        by (auto)
    qed
  qed
qed


section \<open>Properties of the ADD command\<close>






text \<open>
  Claim C8, on the code: in \<open>allocateIP\<close> of host-etcd the first range gets 10.0.0.2
  and \<open>Get\<close> fails on the second with an error of the store. The error is not "no IP
  addresses available in range set", so the body falls through to its two \<open>append\<close>:
  no allocator is released and the ADD returns the list with a nil entry and no error.
\<close>

theorem hostAllocateIP_store_error_is_lost:
  "hostAllocateIP storeFails [[range10], [range11]] =
     (Inr [Some 0x0A000002, None], [CallGet 0 [range10], CallGet 1 [range11]])"
  by (simp add: hostAllocateIP_def hostFormRangeSets_def storeFails_def twoBlocks_def block2_def
      range10_def range11_def net24_def RangeFor_def Contains_def isNoAddresses_def)

text \<open>
  \<open>allocateIP\<close> of multus-ipam on the same input releases the allocator of the first
  range and fails.
\<close>

lemma allocateIP_store_error:
  "allocateIP storeFails [[range10], [range11]] =
     (Inl (ErrAllocate 1 (ErrOther ''store-io'')),
      [CallGet 0 [range10\<lparr>RangeStart := 0x0A000002, RangeEnd := 0x0A000011\<rparr>],
       CallGet 1 [range11\<lparr>RangeStart := 0x0A000102, RangeEnd := 0x0A000111\<rparr>],
       CallRelease 0 [range10\<lparr>RangeStart := 0x0A000002, RangeEnd := 0x0A000011\<rparr>]])"
  by (simp add: allocateIP_def formRangeSets_def storeFails_def twoBlocks_def block2_def
      range10_def range11_def net24_def Contains_def Cmp_def isNoAddresses_def allocGet_def
      numeral_3_eq_3)

text \<open>
  In \<open>allocateIP\<close> of multus-ipam every failure of a range, whatever the error, is
  followed by \<open>Release\<close> on the allocators of all the ranges before it, in order, and
  returned as "failed to allocate for range".
\<close>

lemma releaseAll_Some:
  "list_all (\<lambda>a. a \<noteq> None) allocs \<Longrightarrow>
   releaseAll allocs calls = (True, calls @ map (\<lambda>a. CallRelease (fst (the a)) (snd (the a))) allocs)"
  by (induction allocs calls rule: releaseAll.induct) auto

lemma allocGet_alloc: "fst (allocGet env idx j rs calls) = Some (idx, rs)"
  by (simp add: allocGet_def split: sum.splits)

lemma applyLoop_alloc:
  assumes "applyLoop env Ranges idx k (alloc, ipConf, err, calls) = (alloc', ipConf', None, calls')"
    and "err = None \<longrightarrow> (\<exists>rs. alloc = Some (idx, rs))"
  shows "\<exists>rs. alloc' = Some (idx, rs)"
  using assms
proof (induction k arbitrary: alloc ipConf err calls)
  case 0
  then show ?case by simp
next
  case (Suc k)
  show ?case
  proof (cases err)
    case None
    with Suc.prems show ?thesis by simp
  next
    case (Some e)
    show ?thesis
    proof (cases "isNoAddresses e")
      case False
      with Some Suc.prems show ?thesis by simp
    next
      case True
      show ?thesis
      proof (cases "if idx < length Ranges then Ranges ! idx else []")
        case Nil
        with Some True Suc.prems show ?thesis by simp
      next
        case (Cons r0 rest)
        show ?thesis
        proof (cases "applyRes env idx (2 - k)")
          case (Inl e1)
          with Some True Cons Suc.prems show ?thesis by simp
        next
          case (Inr blk)
          obtain sIP eIP where blk: "blk = (sIP, eIP)" by (cases blk)
          define st1 where "st1 = allocGet env idx (3 - k) [r0\<lparr>RangeStart := sIP, RangeEnd := eIP\<rparr>]
                                  (calls @ [CallApply idx, CallAppendCache sIP eIP])"
          obtain a1 i1 e1 c1 where st1: "st1 = (a1, i1, e1, c1)" by (cases st1) auto
          have a1: "a1 = Some (idx, [r0\<lparr>RangeStart := sIP, RangeEnd := eIP\<rparr>])"
            using allocGet_alloc [of env idx "3 - k" "[r0\<lparr>RangeStart := sIP, RangeEnd := eIP\<rparr>]"
                "calls @ [CallApply idx, CallAppendCache sIP eIP]"] st1 st1_def by simp
          show ?thesis
          proof (cases e1)
            case None
            then have "applyLoop env Ranges idx (Suc k) (alloc, ipConf, err, calls) = st1"
              using Some True Cons Inr blk st1 st1_def by (simp add: Let_def)
            with Suc.prems(1) st1 a1 show ?thesis by simp
          next
            case (Some e2)
            then have "applyLoop env Ranges idx (Suc k) (alloc, ipConf, err, calls) =
                applyLoop env Ranges idx k (a1, i1, e1, c1)"
              using \<open>err = Some e\<close> True Cons Inr blk st1 st1_def by (simp add: Let_def)
            with Suc.prems(1) have "applyLoop env Ranges idx k (a1, i1, e1, c1) = (alloc', ipConf', None, calls')"
              by simp
            from Suc.IH [OF this] a1 show ?thesis by simp
          qed
        qed
      qed
    qed
  qed
qed

lemma allocRanges_failure:
  assumes "allocRanges env Ranges idx rss allocs IPs calls = (Inl e, calls')"
    and "e \<noteq> Panic" and "list_all (\<lambda>a. a \<noteq> None) allocs"
  shows "\<exists>pre got e'. e = ErrAllocate (idx + length got) e' \<and>
           calls' = pre @ map (\<lambda>a. CallRelease (fst (the a)) (snd (the a))) allocs
                        @ map (\<lambda>p. CallRelease (fst p) (snd p)) (zip [idx..<idx + length got] got)"
  using assms
proof (induction rss arbitrary: idx allocs IPs calls)
  case Nil
  then show ?case by simp
next
  case (Cons rs rss)
  define st0 where "st0 = (if rs \<noteq> [] then allocGet env idx 0 rs calls
                 else (None, None, Some ErrNoAddresses, calls))"
  have st0_inv: "fst (snd (snd st0)) = None \<longrightarrow> (\<exists>x. fst st0 = Some (idx, x))"
    by (simp add: st0_def allocGet_def split: sum.splits)
  obtain a0 i0 e0 c0 where st0: "st0 = (a0, i0, e0, c0)" by (cases st0) auto
  obtain alloc ipConf err calls1 where loop: "applyLoop env Ranges idx 3 (a0, i0, e0, c0) = (alloc, ipConf, err, calls1)"
    by (cases "applyLoop env Ranges idx 3 (a0, i0, e0, c0)") auto
  show ?case
  proof (cases err)
    case (Some e1)
    have "e1 \<noteq> Panic" using Cons.prems(1,2) loop Some st0 st0_def
      by (auto simp: Let_def split: if_splits prod.splits)
    then have "e = ErrAllocate idx e1 \<and>
        calls' = calls1 @ map (\<lambda>a. CallRelease (fst (the a)) (snd (the a))) allocs"
      using Cons.prems(1) loop Some st0 st0_def releaseAll_Some [OF Cons.prems(3), of calls1]
      by (auto simp: Let_def split: if_splits)
    then show ?thesis
      by (intro exI [where x = calls1] exI [where x = "[]"] exI [where x = e1]) simp
  next
    case None
    from applyLoop_alloc [OF loop [unfolded None]] st0_inv st0
    obtain x where alloc: "alloc = Some (idx, x)" by auto
    have rest: "allocRanges env Ranges (Suc idx) rss (allocs @ [alloc]) (IPs @ [ipConf]) calls1 = (Inl e, calls')"
      using Cons.prems(1) loop None st0 st0_def by (auto simp: Let_def split: if_splits)
    have all: "list_all (\<lambda>a. a \<noteq> None) (allocs @ [alloc])"
      using Cons.prems(3) alloc by simp
    from Cons.IH [OF rest Cons.prems(2) all]
    obtain pre dn e' where ih: "e = ErrAllocate (Suc idx + length dn) e'"
      "calls' = pre @ map (\<lambda>a. CallRelease (fst (the a)) (snd (the a))) (allocs @ [alloc])
                    @ map (\<lambda>p. CallRelease (fst p) (snd p)) (zip [Suc idx..<Suc idx + length dn] dn)"
      by blast
    have upt: "[idx..<Suc (idx + length dn)] = idx # [Suc idx..<Suc (idx + length dn)]"
      by (rule upt_conv_Cons) simp
    show ?thesis
      by (intro exI [where x = pre] exI [where x = "x # dn"] exI [where x = e'])
         (simp add: ih alloc upt del: upt_Suc)
  qed
qed


lemma allocateIP_failure_releases:
  assumes "allocateIP env Ranges = (Inl e, calls')" and "cacheRes env = Inr c" and "e \<noteq> Panic"
  shows "\<exists>pre got e'. e = ErrAllocate (length got) e' \<and>
           calls' = pre @ map (\<lambda>p. CallRelease (fst p) (snd p)) (zip [0..<length got] got)"
proof -
  have "allocRanges env Ranges 0 (clipOrigin Ranges c []) [] [] [] = (Inl e, calls')"
    using assms(1,2) by (simp add: allocateIP_def formRangeSets_def)
  from allocRanges_failure [OF this assms(3)] show ?thesis by simp
qed

section \<open>What the reconciler returns\<close>




text \<open>When \<open>etcdv3.New\<close> fails, \<open>IPAMCheck\<close> panics before it tests the error.\<close>

lemma IPAMCheck_New_fails: "chkNew env = Inl e \<Longrightarrow> fst (IPAMCheck env nd) = Some Panic"
  by (simp add: IPAMCheck_def)


text \<open>
  \<open>IPAMCheck\<close> assigns the joined path to the package variable \<open>leaseDir\<close>, and
  \<open>ipamCheckNet\<close> joins the root key to it once more: on a node with the root key
  \<open>multus\<close>, the lease 10.0.0.2 - 10.0.0.17 in the coordinator and the blocks
  10.0.0.2 - 10.0.0.17 and 10.0.0.18 - 10.0.0.33 in the cache, the second block is
  written under \<open>multus/multus/lease/net1\<close>.
\<close>

lemma IPAMCheck_key_directory:
  "leaseDirVar (snd (IPAMCheck \<lparr>chkNew = Inr node1Multus, chkList = True, chkNet = (\<lambda>n. okCheck)\<rparr>
          (nodeWith [block2, block18] [(key2, ''node1'')]))) = ''multus/lease'' \<and>
   kv (coord (snd (IPAMCheck \<lparr>chkNew = Inr node1Multus, chkList = True, chkNet = (\<lambda>n. okCheck)\<rparr>
          (nodeWith [block2, block18] [(key2, ''node1'')])))) =
     [(''multus/multus/lease/net1/0167772178-4'', ''node1''), (key2, ''node1'')]"
  apply (simp add: IPAMCheck_def node1Multus_def nodeWith_def etcdWith_def Join_leaseDir cliGetPrefix_def
      openClient_def closeClient_def evt_def kvPrefix_lease leases_of_node1 Let_def)
  apply (simp add: ipamCheckNet_def okCheck_def Join_reconciler_dir Overlaps_def Match_def block2_def [symmetric])
  apply (simp add: block2_def block18_def [symmetric])
  apply (simp add: block2_def [symmetric] key_of_block18_reconciler okRpc_def trans_defs KeyToMutex_reconciler Let_def kvPut_def)
  apply (simp add: block2_def block18_def Match_def key2_def)
  done

end
